theory Spec2Isabelle
  imports Complex_Main "HOL-Library.AList" "HOL-Library.Multiset" "HOL-Library.Sublist"
begin

section \<open>Python values shared by both programs\<close>

text \<open>
  Exceptions are values, each with the text \<^verbatim>\<open>str(e)\<close> gives.  \<open>RuntimeError msg\<close>
  stands for an instance of \<^verbatim>\<open>RuntimeError\<close> with the message \<open>msg\<close>; an
  \<^verbatim>\<open>except RuntimeError\<close> clause catches these and no other.  \<open>Exception msg\<close> stands
  for any other exception object with that message (a failed remote agent call may
  raise either kind).  The two remaining ones are raised by Python itself: by the
  implicit conversion of an \<^verbatim>\<open>int\<close> operand in \<^verbatim>\<open>float * int\<close>, and by \<^verbatim>\<open>input()\<close> at
  the end of the input.  All four are instances of \<^verbatim>\<open>Exception\<close>, so an
  \<^verbatim>\<open>except Exception\<close> clause catches each of them.
\<close>

datatype exn = Exception string | RuntimeError string | OverflowError | EOFError

fun str_exn :: "exn \<Rightarrow> string" where
  "str_exn (Exception msg) = msg"
| "str_exn (RuntimeError msg) = msg"
| "str_exn OverflowError = ''int too large to convert to float''"
| "str_exn EOFError = ''EOF when reading a line''"

section \<open>The trading account: \<^verbatim>\<open>engineering_team/output/accounts.py\<close>\<close>

text \<open>
  A Python \<^verbatim>\<open>float\<close> is modelled by the real number it denotes: rounding, infinities and NaN
  are outside the model.  What is kept of the float arithmetic is its one exception: in
  \<^verbatim>\<open>price * quantity\<close> the \<^verbatim>\<open>int\<close> operand is converted to a double first, and the
  conversion raises \<^verbatim>\<open>OverflowError\<close> for an integer that rounds (to nearest, ties to even)
  beyond the largest double, that is, from \<open>2 ^ 1024 - 2 ^ 970\<close> on.
\<close>

definition float_int_limit :: int where
  "float_int_limit = 2 ^ 1024 - 2 ^ 970"

definition float_of_int :: "int \<Rightarrow> exn + real" where
  "float_of_int n = (if \<bar>n\<bar> < float_int_limit then Inr (real_of_int n) else Inl OverflowError)"

definition mul_float_int :: "real \<Rightarrow> int \<Rightarrow> exn + real" where
  "mul_float_int x n = (case float_of_int n of Inl e \<Rightarrow> Inl e | Inr y \<Rightarrow> Inr (x * y))"

text \<open>
  A transaction is a dict tagged by its \<^verbatim>\<open>'type'\<close> entry; the other entries are the
  constructor's arguments, in the order the source writes them.
\<close>

datatype transaction =
    Deposit real
  | Withdraw real
  | Buy string int real
  | Sell string int real

text \<open>
  \<^verbatim>\<open>holdings\<close> is a dict from symbol to quantity.  It is kept as an association list in
  insertion order, which is the order \<^verbatim>\<open>holdings.items()\<close> iterates in: assigning to a key
  that is present replaces its value in place, assigning to a new key appends, \<^verbatim>\<open>del\<close>
  removes the entry.
\<close>

record account =
  account_id :: string
  balance :: real
  initial_deposit :: real
  holdings :: "(string \<times> int) list"
  transactions :: "transaction list"

definition get_share_price :: "string \<Rightarrow> real" where
  "get_share_price symbol =
     (case map_of [(''AAPL'', 150), (''TSLA'', 700), (''GOOGL'', 2500)] symbol of
        Some price \<Rightarrow> price
      | None \<Rightarrow> 0)"

definition new_account :: "string \<Rightarrow> real \<Rightarrow> account" where
  "new_account aid initial =
     \<lparr>account_id = aid, balance = initial, initial_deposit = initial,
      holdings = [], transactions = [Deposit initial]\<rparr>"

definition deposit :: "account \<Rightarrow> real \<Rightarrow> account" where
  "deposit a amount =
     a\<lparr>balance := balance a + amount, transactions := transactions a @ [Deposit amount]\<rparr>"

definition withdraw :: "account \<Rightarrow> real \<Rightarrow> bool \<times> account" where
  "withdraw a amount =
     (if amount > balance a then (False, a)
      else (True, a\<lparr>balance := balance a - amount,
                     transactions := transactions a @ [Withdraw amount]\<rparr>))"

text \<open>
  \<^verbatim>\<open>buy_shares\<close> and \<open>sell_shares\<close> return the account as the call leaves it together
  with either the returned \<^verbatim>\<open>bool\<close> or the exception raised by \<^verbatim>\<open>price * quantity\<close>.
  In \<^verbatim>\<open>sell_shares\<close> the product is computed after the holdings were updated, so the
  account returned with the exception carries that update.
\<close>

definition buy_shares :: "account \<Rightarrow> string \<Rightarrow> int \<Rightarrow> (exn + bool) \<times> account" where
  "buy_shares a symbol quantity =
     (let price = get_share_price symbol in
      case mul_float_int price quantity of
        Inl e \<Rightarrow> (Inl e, a)
      | Inr total_cost \<Rightarrow>
          if total_cost > balance a then (Inr False, a)
          else
            (Inr True,
             a\<lparr>balance := balance a - total_cost,
               holdings :=
                 (case map_of (holdings a) symbol of
                    Some held \<Rightarrow> AList.update symbol (held + quantity) (holdings a)
                  | None \<Rightarrow> AList.update symbol quantity (holdings a)),
               transactions := transactions a @ [Buy symbol quantity price]\<rparr>))"

definition sell_shares :: "account \<Rightarrow> string \<Rightarrow> int \<Rightarrow> (exn + bool) \<times> account" where
  "sell_shares a symbol quantity =
     (case map_of (holdings a) symbol of
        None \<Rightarrow> (Inr False, a)
      | Some held \<Rightarrow>
          if held < quantity then (Inr False, a)
          else
            (let price = get_share_price symbol;
                 h1 = AList.update symbol (held - quantity) (holdings a);
                 h2 = (if held - quantity = 0 then AList.delete symbol h1 else h1);
                 a1 = a\<lparr>holdings := h2\<rparr>
             in case mul_float_int price quantity of
                  Inl e \<Rightarrow> (Inl e, a1)
                | Inr proceeds \<Rightarrow>
                    (Inr True,
                     a1\<lparr>balance := balance a1 + proceeds,
                        transactions := transactions a1 @ [Sell symbol quantity price]\<rparr>)))"

text \<open>The loop of \<^verbatim>\<open>calculate_portfolio_value\<close> over \<^verbatim>\<open>holdings.items()\<close>.\<close>

fun portfolio_loop :: "(string \<times> int) list \<Rightarrow> real \<Rightarrow> exn + real" where
  "portfolio_loop [] total_value = Inr total_value"
| "portfolio_loop ((symbol, quantity) # rest) total_value =
     (case mul_float_int (get_share_price symbol) quantity of
        Inl e \<Rightarrow> Inl e
      | Inr v \<Rightarrow> portfolio_loop rest (total_value + v))"

definition calculate_portfolio_value :: "account \<Rightarrow> exn + real" where
  "calculate_portfolio_value a = portfolio_loop (holdings a) (balance a)"

definition calculate_profit_loss :: "account \<Rightarrow> exn + real" where
  "calculate_profit_loss a =
     (case calculate_portfolio_value a of
        Inl e \<Rightarrow> Inl e
      | Inr v \<Rightarrow> Inr (v - initial_deposit a))"

definition known_symbols :: "string set" where
  "known_symbols = {''AAPL'', ''TSLA'', ''GOOGL''}"

text \<open>The quantity \<^verbatim>\<open>holdings.get(symbol, 0)\<close> an account holds of a symbol.\<close>

definition held_quantity :: "account \<Rightarrow> string \<Rightarrow> int" where
  "held_quantity a symbol =
     (case map_of (holdings a) symbol of Some held \<Rightarrow> held | None \<Rightarrow> 0)"

text \<open>The account of the repository's unit tests, \<^verbatim>\<open>Account('user123', 1000.0)\<close>.\<close>

definition test_account :: account where
  "test_account = new_account ''user123'' 1000"

section \<open>Strings\<close>

text \<open>
  A Python \<^verbatim>\<open>str\<close> is a \<open>string\<close>, each \<open>char\<close> read as the code point of that number
  (so the model covers the code points below 256).  \<^verbatim>\<open>str.isspace\<close> holds of these
  twelve of them, and \<^verbatim>\<open>str.strip()\<close> removes them from both ends.
\<close>

definition whitespace :: "char list" where
  "whitespace =
     [CHR 0x09, CHR 0x0A, CHR 0x0B, CHR 0x0C, CHR 0x0D, CHR 0x1C, CHR 0x1D, CHR 0x1E, CHR 0x1F,
      CHR 0x20, CHR 0x85, CHR 0xA0]"

definition isspace :: "char \<Rightarrow> bool" where
  "isspace c = (c \<in> set whitespace)"

definition strip :: "string \<Rightarrow> string" where
  "strip s = rev (dropWhile isspace (rev (dropWhile isspace s)))"

text \<open>\<^verbatim>\<open>str(n)\<close> of a natural number, as an f-string writes a length or a loop index.\<close>

definition digit_char :: "nat \<Rightarrow> char" where
  "digit_char d = ''0123456789'' ! d"

function str_nat :: "nat \<Rightarrow> string" where
  "str_nat n =
     (if n < 10 then [digit_char n] else str_nat (n div 10) @ [digit_char (n mod 10)])"
  by pat_completeness auto
termination
  by (relation "measure id") auto

declare str_nat.simps [simp del]

section \<open>The research pipeline: \<^verbatim>\<open>deep-research/research_manager.py\<close>\<close>

subsection \<open>The structured outputs of the agents\<close>

record Question =
  reason :: string
  question :: string

record Questions =
  searches :: "Question list"

record WebSearchItem =
  reason :: string
  query :: string

record WebSearchPlan =
  searches :: "WebSearchItem list"

text \<open>
  Modelled from the spec: \<^verbatim>\<open>ReportData\<close> of \<^verbatim>\<open>writer_agent.py\<close>, which is not among the
  sources.  The spec describes it as a long-form text report plus summary fields; the
  pipeline reads only \<^verbatim>\<open>markdown_report\<close>, the other fields stay in the record's
  extension.
\<close>

record ReportData =
  markdown_report :: string

subsection \<open>The agent runtime\<close>

text \<open>
  The hosted runtime is a parameter.  \<^verbatim>\<open>Runner.run(agent, input)\<close> either returns the
  agent's final output or raises; one field per agent gives that answer as a function of
  the input text.  \<open>gen_trace_id\<close> is the identifier the runtime generates for the run,
  \<open>repr_list\<close> is Python's formatting of a list of strings inside an f-string, and
  \<open>completion_order\<close> is the order in which the scheduler completes the search tasks,
  as indices into the list of tasks (in a run, a permutation of all of them).
\<close>

datatype agent = product_manager_agent | planner_agent | search_agent | writer_agent | email_agent

type_synonym call = "agent \<times> string"

record runtime =
  gen_trace_id :: string
  run_product_manager :: "string \<Rightarrow> exn + Questions"
  run_planner :: "string \<Rightarrow> exn + WebSearchPlan"
  run_search :: "string \<Rightarrow> exn + string"
  run_writer :: "string \<Rightarrow> exn + ReportData"
  run_email :: "string \<Rightarrow> exn + unit"
  repr_list :: "string list \<Rightarrow> string"
  completion_order :: "nat list"

definition as_completed :: "'a list \<Rightarrow> nat list \<Rightarrow> 'a list" where
  "as_completed tasks order = map (\<lambda>i. tasks ! i) (filter (\<lambda>i. i < length tasks) order)"

text \<open>
  An async generator, consumed to its end as \<^verbatim>\<open>async for\<close> does: the elements it
  yielded in order, the exception that ended it if one did, and the calls of
  \<^verbatim>\<open>Runner.run\<close> made on the way, in the order they were issued.  Printing to the
  console is not part of the model.
\<close>

record generator_run =
  yielded :: "string list"
  raised :: "exn option"
  calls :: "call list"

subsection \<open>The stages\<close>

text \<open>
  The source's parameter \<^verbatim>\<open>query\<close> is written \<open>topic\<close> below, since \<open>query\<close> is the
  field of a search item.
\<close>

definition get_trace_url :: "string \<Rightarrow> string" where
  "get_trace_url trace_id = ''https://platform.openai.com/traces/trace?trace_id='' @ trace_id"

definition planner_input :: "string \<Rightarrow> string \<Rightarrow> string" where
  "planner_input topic questions_and_responses =
     ''Query: '' @ topic @ ''\<newline>Questions and Responses:\<newline>'' @ questions_and_responses"

definition plan_searches :: "runtime \<Rightarrow> string \<Rightarrow> string \<Rightarrow> call list \<times> (exn + WebSearchPlan)" where
  "plan_searches rt topic questions_and_responses =
     (let input_text = planner_input topic questions_and_responses
      in ([(planner_agent, input_text)], run_planner rt input_text))"

definition search_input :: "WebSearchItem \<Rightarrow> string" where
  "search_input item =
     ''Search term: '' @ query item @ ''\<newline>Reason for searching: '' @ reason item"

definition search :: "runtime \<Rightarrow> WebSearchItem \<Rightarrow> call list \<times> string option" where
  "search rt item =
     ([(search_agent, search_input item)],
      case run_search rt (search_input item) of
        Inr final_output \<Rightarrow> Some final_output
      | Inl e \<Rightarrow> None)"

text \<open>The loop of \<^verbatim>\<open>_perform_searches\<close> over the tasks in completion order.\<close>

fun collect_results :: "string option list \<Rightarrow> string list \<Rightarrow> string list" where
  "collect_results [] results = results"
| "collect_results (result # rest) results =
     collect_results rest (case result of Some r \<Rightarrow> results @ [r] | None \<Rightarrow> results)"

definition perform_searches :: "runtime \<Rightarrow> WebSearchPlan \<Rightarrow> call list \<times> string list" where
  "perform_searches rt search_plan =
     (let tasks = map (search rt) (searches search_plan)
      in (concat (map fst tasks),
          collect_results (as_completed (map snd tasks) (completion_order rt)) []))"

definition report_input :: "runtime \<Rightarrow> string \<Rightarrow> string list \<Rightarrow> string" where
  "report_input rt topic search_results =
     ''Original query: '' @ topic @ ''\<newline>Summarized search results: ''
       @ repr_list rt search_results"

definition write_report :: "runtime \<Rightarrow> string \<Rightarrow> string list \<Rightarrow> call list \<times> (exn + ReportData)" where
  "write_report rt topic search_results =
     (let input_text = report_input rt topic search_results
      in ([(writer_agent, input_text)], run_writer rt input_text))"

definition send_email :: "runtime \<Rightarrow> ReportData \<Rightarrow> call list \<times> (exn + unit)" where
  "send_email rt report =
     ([(email_agent, markdown_report report)], run_email rt (markdown_report report))"

subsection \<open>The generators\<close>

definition execute_research_pipeline :: "runtime \<Rightarrow> string \<Rightarrow> string \<Rightarrow> generator_run" where
  "execute_research_pipeline rt topic questions_and_responses =
     (case plan_searches rt topic questions_and_responses of
        (c1, Inl e) \<Rightarrow> \<lparr>yielded = [], raised = Some e, calls = c1\<rparr>
      | (c1, Inr search_plan) \<Rightarrow>
          (case perform_searches rt search_plan of
             (c2, search_results) \<Rightarrow>
               (case write_report rt topic search_results of
                  (c3, Inl e) \<Rightarrow>
                    \<lparr>yielded =
                       [''Searches planned, starting to search...'',
                        ''Searches complete, writing report...''],
                     raised = Some e, calls = c1 @ c2 @ c3\<rparr>
                | (c3, Inr report) \<Rightarrow>
                    (case send_email rt report of
                       (c4, Inl e) \<Rightarrow>
                         \<lparr>yielded =
                            [''Searches planned, starting to search...'',
                             ''Searches complete, writing report...'',
                             ''Report written, sending email...''],
                          raised = Some e, calls = c1 @ c2 @ c3 @ c4\<rparr>
                     | (c4, Inr u) \<Rightarrow>
                         \<lparr>yielded =
                            [''Searches planned, starting to search...'',
                             ''Searches complete, writing report...'',
                             ''Report written, sending email...'',
                             ''Email sent, research complete'',
                             markdown_report report],
                          raised = None, calls = c1 @ c2 @ c3 @ c4\<rparr>))))"

definition run_with_responses :: "runtime \<Rightarrow> string \<Rightarrow> string \<Rightarrow> generator_run" where
  "run_with_responses rt topic questions_and_responses =
     (let trace_id = gen_trace_id rt;
          g = execute_research_pipeline rt topic questions_and_responses
      in g\<lparr>yielded :=
             [get_trace_url trace_id, ''Starting research with your responses...'']
               @ yielded g\<rparr>)"

text \<open>
  One line of the transcript, as both collection paths write it:
  \<^verbatim>\<open>f"{i}. {question_item.question} - Response: {response}\n"\<close>.
\<close>

definition transcript_line :: "nat \<Rightarrow> Question \<Rightarrow> string \<Rightarrow> string" where
  "transcript_line i question_item response =
     str_nat i @ ''. '' @ question question_item @ '' - Response: '' @ response @ ''\<newline>''"

text \<open>
  The loop of \<^verbatim>\<open>_interactive_question_collection\<close>.  The third argument is what is
  left of the standard input, one element per line; \<^verbatim>\<open>input()\<close> returns the next line
  and raises \<^verbatim>\<open>EOFError\<close> when there is none.
\<close>

fun interactive_loop :: "nat \<Rightarrow> Question list \<Rightarrow> string list \<Rightarrow> string \<Rightarrow> exn + string" where
  "interactive_loop i [] stdin questions_and_responses = Inr questions_and_responses"
| "interactive_loop i (question_item # rest) [] questions_and_responses = Inl EOFError"
| "interactive_loop i (question_item # rest) (line # stdin) questions_and_responses =
     (let user_response = strip line
      in interactive_loop (Suc i) rest stdin
           (questions_and_responses @ transcript_line i question_item user_response))"

definition interactive_question_collection :: "Question list \<Rightarrow> string list \<Rightarrow> exn + string" where
  "interactive_question_collection questions stdin = interactive_loop 1 questions stdin []"

definition collect_user_insights :: "runtime \<Rightarrow> string list \<Rightarrow> string \<Rightarrow> call list \<times> (exn + string)" where
  "collect_user_insights rt stdin topic =
     (let input_text = ''Query: '' @ topic
      in ([(product_manager_agent, input_text)],
          case run_product_manager rt input_text of
            Inl e \<Rightarrow> Inl e
          | Inr final_output \<Rightarrow>
              interactive_question_collection (Questions.searches final_output) stdin))"

definition run :: "runtime \<Rightarrow> string list \<Rightarrow> string \<Rightarrow> generator_run" where
  "run rt stdin topic =
     (let trace_id = gen_trace_id rt
      in case collect_user_insights rt stdin topic of
           (c0, Inl e) \<Rightarrow> \<lparr>yielded = [get_trace_url trace_id], raised = Some e, calls = c0\<rparr>
         | (c0, Inr questions_and_responses) \<Rightarrow>
             (let g = execute_research_pipeline rt topic questions_and_responses
              in g\<lparr>yielded := get_trace_url trace_id # yielded g, calls := c0 @ calls g\<rparr>))"

section \<open>The web interface: \<^verbatim>\<open>deep-research/deep_research.py\<close>\<close>

text \<open>
  The module keeps one global \<^verbatim>\<open>session\<close> object.  Every function that reads it takes
  it as an argument, and the entry points return it as they leave it.  A response
  component is the dict of label, placeholder and line count made for one question.
\<close>

record component =
  label :: string
  placeholder :: string
  lines :: nat

record ResearchSession =
  current_questions :: "Question list"
  current_query :: string
  response_components :: "component list"

definition new_session :: ResearchSession where
  "new_session = \<lparr>current_questions = [], current_query = [], response_components = []\<rparr>"

text \<open>
  A response is the value of a text box: a string or \<^verbatim>\<open>None\<close>.  The list comprehension
  of \<^verbatim>\<open>_validate_responses\<close> and \<^verbatim>\<open>_format_questions_and_responses\<close> keeps the
  responses that are not \<^verbatim>\<open>None\<close> and whose \<^verbatim>\<open>strip()\<close> is not empty, as they are.
\<close>

fun valid_responses :: "string option list \<Rightarrow> string list" where
  "valid_responses [] = []"
| "valid_responses (None # responses) = valid_responses responses"
| "valid_responses (Some resp # responses) =
     (if strip resp \<noteq> [] then resp # valid_responses responses
      else valid_responses responses)"

definition validate_responses :: "ResearchSession \<Rightarrow> string option list \<Rightarrow> string option" where
  "validate_responses session responses =
     (if length (valid_responses responses) \<noteq> length (current_questions session)
      then Some (''Please provide answers for all ''
                 @ str_nat (length (current_questions session)) @ '' questions. ''
                 @ ''You provided '' @ str_nat (length (valid_responses responses))
                 @ '' answers.'')
      else None)"

fun format_loop :: "nat \<Rightarrow> (Question \<times> string) list \<Rightarrow> string \<Rightarrow> string" where
  "format_loop i [] questions_and_responses = questions_and_responses"
| "format_loop i ((question_item, response) # rest) questions_and_responses =
     format_loop (Suc i) rest
       (questions_and_responses @ transcript_line i question_item response)"

definition format_questions_and_responses :: "ResearchSession \<Rightarrow> string option list \<Rightarrow> string" where
  "format_questions_and_responses session responses =
     format_loop 1 (zip (current_questions session) (valid_responses responses)) []"

subsection \<open>\<^verbatim>\<open>AsyncHelper.run_async\<close>\<close>

text \<open>
  Besides the session there is the state asyncio keeps for the calling thread, which
  is what \<^verbatim>\<open>asyncio.get_event_loop()\<close> finds there: no current loop, and it raises
  \<^verbatim>\<open>RuntimeError\<close>; a loop that is not running; or a loop that is running.
\<close>

datatype loop_state = no_current_loop | idle_loop | running_loop

text \<open>
  A coroutine object runs once.  \<open>fresh r\<close> is one not yet awaited, whose body ends
  with the value or the exception \<open>r\<close>; \<open>spent\<close> is one that has run to its end.
\<close>

datatype 'a coroutine = fresh "exn + 'a" | spent

text \<open>
  \<^verbatim>\<open>asyncio.run(coro)\<close> refuses at once on a thread whose loop is running.  Otherwise it
  makes a new loop and runs the coroutine in it, where a spent coroutine raises; at
  the end it closes its loop and sets the thread's current loop to \<^verbatim>\<open>None\<close>.
\<close>

definition asyncio_run :: "loop_state \<Rightarrow> 'a coroutine \<Rightarrow> (exn + 'a) \<times> loop_state" where
  "asyncio_run loop coro =
     (if loop = running_loop
      then (Inl (RuntimeError ''asyncio.run() cannot be called from a running event loop''),
            running_loop)
      else (case coro of
              fresh r \<Rightarrow> r
            | spent \<Rightarrow> Inl (RuntimeError ''cannot reuse already awaited coroutine''),
            no_current_loop))"

text \<open>
  \<^verbatim>\<open>run_async\<close> is given a fresh coroutine; the second argument is how its body ends.
  The \<^verbatim>\<open>try\<close> block holds \<^verbatim>\<open>get_event_loop()\<close> and also the run of the coroutine: on a
  running loop in a worker thread (\<^verbatim>\<open>executor.submit(asyncio.run, coro)\<close>, whose
  \<^verbatim>\<open>future.result()\<close> raises what the coroutine raised), on an idle loop by
  \<^verbatim>\<open>loop.run_until_complete(coro)\<close>.  So \<^verbatim>\<open>except RuntimeError\<close> is entered when
  \<^verbatim>\<open>get_event_loop()\<close> raised, with the coroutine still fresh, and also when the
  coroutine itself raised a \<^verbatim>\<open>RuntimeError\<close>, with the coroutine spent; in both cases the
  handler calls \<^verbatim>\<open>asyncio.run(coro)\<close>, and what that raises leaves \<^verbatim>\<open>run_async\<close>.
\<close>

definition run_async :: "loop_state \<Rightarrow> exn + 'a \<Rightarrow> (exn + 'a) \<times> loop_state" where
  "run_async loop r =
     (case loop of
        no_current_loop \<Rightarrow> asyncio_run no_current_loop (fresh r)
      | running_loop \<Rightarrow>
          (case r of
             Inl (RuntimeError msg) \<Rightarrow> asyncio_run running_loop spent
           | _ \<Rightarrow> (r, running_loop))
      | idle_loop \<Rightarrow>
          (case r of
             Inl (RuntimeError msg) \<Rightarrow> asyncio_run idle_loop spent
           | _ \<Rightarrow> (r, idle_loop)))"

subsection \<open>The entry points\<close>

text \<open>
  What an entry point of the interface leaves behind: the value it returned, the
  calls of \<^verbatim>\<open>Runner.run\<close> it caused, the global session and the thread's loop state as
  the call left them.
\<close>

record 'a outcome =
  returned :: 'a
  agent_calls :: "call list"
  session_left :: ResearchSession
  loop_left :: loop_state

text \<open>
  \<^verbatim>\<open>_execute_research\<close> makes a new \<^verbatim>\<open>ResearchManager\<close>, which has no fields.  Its
  coroutine \<^verbatim>\<open>async_run()\<close> joins every chunk of \<^verbatim>\<open>run_with_responses\<close> followed by two
  newlines and ends with the exception that ended the generator, if one did.  The
  coroutine is handed to \<^verbatim>\<open>AsyncHelper.run_async\<close>, and \<^verbatim>\<open>except Exception\<close> turns what
  that raises into an error string.  The body of the coroutine runs once, whichever
  way \<^verbatim>\<open>run_async\<close> takes.
\<close>

definition execute_research ::
  "loop_state \<Rightarrow> ResearchSession \<Rightarrow> runtime \<Rightarrow> string \<Rightarrow> string outcome" where
  "execute_research loop session rt questions_and_responses =
     (let g = run_with_responses rt (current_query session) questions_and_responses;
          async_run =
            (case raised g of
               None \<Rightarrow> Inr (foldl (\<lambda>result chunk. result @ chunk @ ''\<newline>\<newline>'') [] (yielded g))
             | Some e \<Rightarrow> Inl e)
      in case run_async loop async_run of
           (result, loop') \<Rightarrow>
             \<lparr>returned =
                (case result of
                   Inr text \<Rightarrow> text
                 | Inl e \<Rightarrow> ''Error running research: '' @ str_exn e),
              agent_calls = calls g,
              session_left = session,
              loop_left = loop'\<rparr>)"

text \<open>
  \<^verbatim>\<open>if validation_result:\<close> takes the branch for a string that is not empty.
\<close>

definition run_research ::
  "loop_state \<Rightarrow> ResearchSession \<Rightarrow> runtime \<Rightarrow> string option list \<Rightarrow> string outcome" where
  "run_research loop session rt responses =
     (case validate_responses session responses of
        Some validation_result \<Rightarrow>
          if validation_result \<noteq> []
          then \<lparr>returned = validation_result, agent_calls = [], session_left = session,
                loop_left = loop\<rparr>
          else execute_research loop session rt
                 (format_questions_and_responses session responses)
      | None \<Rightarrow>
          execute_research loop session rt
            (format_questions_and_responses session responses))"

fun display_loop :: "nat \<Rightarrow> Question list \<Rightarrow> string \<Rightarrow> string" where
  "display_loop i [] questions_text = questions_text"
| "display_loop i (question_item # rest) questions_text =
     display_loop (Suc i) rest
       (questions_text
        @ ''**Question '' @ str_nat i @ '':** '' @ question question_item @ ''\<newline>\<newline>''
        @ ''*Reason: '' @ Question.reason question_item @ ''*\<newline>\<newline>'')"

definition format_questions_for_display :: "Question list \<Rightarrow> string" where
  "format_questions_for_display questions =
     display_loop 1 questions
       ''## Please answer these questions to help with your research:\<newline>\<newline>''"

definition create_placeholder_text :: "string \<Rightarrow> string" where
  "create_placeholder_text q =
     (let truncated_question = take 30 q @ (if length q > 30 then ''...'' else [])
      in ''Your answer to: '' @ truncated_question)"

fun components_loop :: "nat \<Rightarrow> Question list \<Rightarrow> component list \<Rightarrow> component list" where
  "components_loop i [] components = components"
| "components_loop i (question_item # rest) components =
     components_loop (Suc i) rest
       (components @
        [\<lparr>label = ''Question '' @ str_nat i @ '': '' @ question question_item,
          placeholder = create_placeholder_text (question question_item),
          lines = 2\<rparr>])"

definition create_response_components :: "Question list \<Rightarrow> component list" where
  "create_response_components questions = components_loop 1 questions []"

text \<open>
  \<^verbatim>\<open>generate_questions\<close> returns the text to display, whether the question section is
  visible (the \<^verbatim>\<open>gr.update(visible=...)\<close>), and the response components.  It stores the
  query before the \<^verbatim>\<open>try\<close>, and the questions and components after the agent returned.
  The agent's coroutine goes through \<^verbatim>\<open>AsyncHelper.run_async\<close> as well.
\<close>

definition generate_questions ::
  "loop_state \<Rightarrow> ResearchSession \<Rightarrow> runtime \<Rightarrow> string \<Rightarrow>
     (string \<times> bool \<times> component list) outcome" where
  "generate_questions loop session rt topic =
     (let s1 = session\<lparr>current_query := topic\<rparr>;
          input_text = ''Query: '' @ topic
      in case run_async loop (run_product_manager rt input_text) of
           (Inl e, loop') \<Rightarrow>
             \<lparr>returned = (''Error generating questions: '' @ str_exn e, False, []),
              agent_calls = [(product_manager_agent, input_text)],
              session_left = s1,
              loop_left = loop'\<rparr>
         | (Inr final_output, loop') \<Rightarrow>
             (let s2 = s1\<lparr>current_questions := Questions.searches final_output\<rparr>;
                  questions_text = format_questions_for_display (current_questions s2);
                  s3 = s2\<lparr>response_components :=
                            create_response_components (current_questions s2)\<rparr>
              in \<lparr>returned = (questions_text, True, response_components s3),
                  agent_calls = [(product_manager_agent, input_text)],
                  session_left = s3,
                  loop_left = loop'\<rparr>))"

section \<open>Notions the properties are stated with\<close>

text \<open>A response counts as an answer when it is not \<^verbatim>\<open>None\<close> and not blank.\<close>

definition is_answered :: "string option \<Rightarrow> bool" where
  "is_answered resp = (case resp of None \<Rightarrow> False | Some s \<Rightarrow> strip s \<noteq> [])"

text \<open>
  The exception that leaves \<^verbatim>\<open>AsyncHelper.run_async\<close> when the coroutine it was given
  ends with the exception \<open>e\<close>.
\<close>

definition passed_on :: "loop_state \<Rightarrow> exn \<Rightarrow> exn" where
  "passed_on loop e =
     (case fst (run_async loop (Inl e :: exn + unit)) of Inl e' \<Rightarrow> e' | Inr u \<Rightarrow> e)"

text \<open>Whether the remote call of a search task raises, and what the task then returns.\<close>

definition search_raises :: "runtime \<Rightarrow> WebSearchItem \<Rightarrow> bool" where
  "search_raises rt item =
     (case run_search rt (search_input item) of Inl e \<Rightarrow> True | Inr final_output \<Rightarrow> False)"

definition search_result :: "runtime \<Rightarrow> WebSearchItem \<Rightarrow> string option" where
  "search_result rt item = snd (search rt item)"

subsection \<open>A sample run\<close>

text \<open>
  The run of the specification's example: the topic \<^verbatim>\<open>best budget laptops 2024\<close>, three
  clarifying questions, three answers, a plan of three searches.  The sample runtime
  answers every call; its variants let one agent raise.
\<close>

definition laptop_questions :: "Question list" where
  "laptop_questions =
     [\<lparr>Question.reason = ''The price range narrows the models'',
       question = ''What is your budget?''\<rparr>,
      \<lparr>Question.reason = ''The use decides the hardware'',
       question = ''What will you use it for?''\<rparr>,
      \<lparr>Question.reason = ''Size trades against weight'',
       question = ''Which screen size?''\<rparr>]"

definition laptop_session :: ResearchSession where
  "laptop_session =
     \<lparr>current_questions = laptop_questions,
      current_query = ''best budget laptops 2024'',
      response_components = create_response_components laptop_questions\<rparr>"

definition laptop_responses :: "string option list" where
  "laptop_responses = [Some ''under 600 dollars'', Some ''programming'', Some ''14 inch'']"

definition laptop_transcript :: string where
  "laptop_transcript =
     ''1. What is your budget? - Response: under 600 dollars\<newline>''
     @ ''2. What will you use it for? - Response: programming\<newline>''
     @ ''3. Which screen size? - Response: 14 inch\<newline>''"

definition laptop_plan :: WebSearchPlan where
  "laptop_plan =
     \<lparr>searches =
        [\<lparr>reason = ''prices'', query = ''laptops under 600''\<rparr>,
         \<lparr>reason = ''reviews'', query = ''laptops for programming''\<rparr>,
         \<lparr>reason = ''sizes'', query = ''14 inch laptops''\<rparr>]\<rparr>"

definition laptop_report :: ReportData where
  "laptop_report = \<lparr>markdown_report = ''# Budget laptops 2024''\<rparr>"

text \<open>The text Python prints for a list of strings that need no escaping.\<close>

fun plain_repr_items :: "string list \<Rightarrow> string" where
  "plain_repr_items [] = []"
| "plain_repr_items [x] = [CHR 0x27] @ x @ [CHR 0x27]"
| "plain_repr_items (x # y # ys) = [CHR 0x27] @ x @ [CHR 0x27] @ '', '' @ plain_repr_items (y # ys)"

definition plain_repr_list :: "string list \<Rightarrow> string" where
  "plain_repr_list xs = ''['' @ plain_repr_items xs @ '']''"

definition laptop_runtime :: runtime where
  "laptop_runtime =
     \<lparr>gen_trace_id = ''trace_1'',
      run_product_manager = (\<lambda>input. Inr \<lparr>Questions.searches = laptop_questions\<rparr>),
      run_planner = (\<lambda>input. Inr laptop_plan),
      run_search =
        (\<lambda>input. Inr (''Summary of '' @ takeWhile (\<lambda>c. c \<noteq> CHR 0x0A) (drop 13 input))),
      run_writer = (\<lambda>input. Inr laptop_report),
      run_email = (\<lambda>input. Inr ()),
      repr_list = plain_repr_list,
      completion_order = [2, 0, 1]\<rparr>"

definition search_timeout_runtime :: runtime where
  "search_timeout_runtime =
     laptop_runtime
       \<lparr>run_search :=
          (\<lambda>input. if input = search_input (searches laptop_plan ! 1)
                    then Inl (Exception ''timeout'')
                    else run_search laptop_runtime input)\<rparr>"

definition writer_down_runtime :: runtime where
  "writer_down_runtime =
     laptop_runtime\<lparr>run_writer := (\<lambda>input. Inl (Exception ''model overloaded''))\<rparr>"

definition email_down_runtime :: runtime where
  "email_down_runtime =
     laptop_runtime\<lparr>run_email := (\<lambda>input. Inl (Exception ''SMTP connection refused''))\<rparr>"

text \<open>A writer whose failure is a \<^verbatim>\<open>RuntimeError\<close>.\<close>

definition writer_crash_runtime :: runtime where
  "writer_crash_runtime =
     laptop_runtime\<lparr>run_writer := (\<lambda>input. Inl (RuntimeError ''model overloaded''))\<rparr>"

text \<open>
  Three lines typed at the prompts, the first padded with blanks and the second blank;
  the same three as responses of the interface; and three responses of which the first
  is padded and none is blank.
\<close>

definition typed_lines :: "string list" where
  "typed_lines = [''  under 600 dollars '', ''   '', ''14 inch'']"

definition one_blank_response :: "string option list" where
  "one_blank_response = [Some ''  under 600 dollars '', Some ''   '', Some ''14 inch'']"

definition padded_responses :: "string option list" where
  "padded_responses = [Some ''  under 600 dollars '', Some ''programming'', Some ''14 inch'']"

section \<open>Properties of the trading account\<close>

lemma get_share_price_unknown:
  "symbol \<notin> known_symbols \<Longrightarrow> get_share_price symbol = 0"
  by (simp add: get_share_price_def known_symbols_def)

lemma mul_zero_price:
  "\<bar>n\<bar> < float_int_limit \<Longrightarrow> mul_float_int 0 n = Inr 0"
  by (simp add: mul_float_int_def float_of_int_def)

lemma portfolio_loop_update_zero:
  "get_share_price symbol = 0 \<Longrightarrow> \<bar>n\<bar> < float_int_limit \<Longrightarrow>
   portfolio_loop hs t = Inr v \<Longrightarrow>
   portfolio_loop (AList.update symbol n hs) t = Inr v"
proof (induction hs arbitrary: t)
  case Nil
  then show ?case by (simp add: mul_zero_price)
next
  case (Cons p hs)
  obtain s q where p: "p = (s, q)" by (cases p)
  show ?case
  proof (cases "s = symbol")
    case True
    with Cons.prems p show ?thesis
      by (auto simp: mul_float_int_def float_of_int_def split: sum.splits if_splits)
  next
    case False
    with Cons p show ?thesis
      by (auto split: sum.splits)
  qed
qed

text \<open>
  Claim C9.  A \<^verbatim>\<open>deposit\<close>, and every \<^verbatim>\<open>withdraw\<close>, \<^verbatim>\<open>buy_shares\<close> and
  \<^verbatim>\<open>sell_shares\<close> that returns \<^verbatim>\<open>True\<close>, appends exactly one record to
  \<^verbatim>\<open>transactions\<close> (the record of that operation, after the records already there);
  a \<^verbatim>\<open>withdraw\<close>, \<^verbatim>\<open>buy_shares\<close> or \<^verbatim>\<open>sell_shares\<close> that returns \<^verbatim>\<open>False\<close>
  leaves the whole account, so its balance, holdings and transactions, as it was.
\<close>

theorem one_transaction_per_success_none_on_refusal:
  "transactions (deposit a0 amount0) = transactions a0 @ [Deposit amount0]
   \<and> (fst (withdraw a1 amount1) \<longrightarrow>
        transactions (snd (withdraw a1 amount1)) = transactions a1 @ [Withdraw amount1])
   \<and> (\<not> fst (withdraw a2 amount2) \<longrightarrow> snd (withdraw a2 amount2) = a2)
   \<and> (fst (buy_shares a3 symbol3 quantity3) = Inr True \<longrightarrow>
        transactions (snd (buy_shares a3 symbol3 quantity3)) =
          transactions a3 @ [Buy symbol3 quantity3 (get_share_price symbol3)])
   \<and> (fst (buy_shares a4 symbol4 quantity4) = Inr False \<longrightarrow>
        snd (buy_shares a4 symbol4 quantity4) = a4)
   \<and> (fst (sell_shares a5 symbol5 quantity5) = Inr True \<longrightarrow>
        transactions (snd (sell_shares a5 symbol5 quantity5)) =
          transactions a5 @ [Sell symbol5 quantity5 (get_share_price symbol5)])
   \<and> (fst (sell_shares a6 symbol6 quantity6) = Inr False \<longrightarrow>
        snd (sell_shares a6 symbol6 quantity6) = a6)"
  by (auto simp: deposit_def withdraw_def buy_shares_def sell_shares_def Let_def
      split: sum.splits option.splits if_splits)

text \<open>
  The calls of the repository's unit tests: a withdrawal of 200 and one of 2000 from a
  balance of 1000, a purchase of 5 and one of 10 AAPL, and a sale of 3 AAPL from a
  holding of 5 and from a holding of 2.
\<close>

theorem one_transaction_per_success_none_on_refusal_witness:
  "transactions (deposit test_account 500) = [Deposit 1000, Deposit 500]
   \<and> fst (withdraw test_account 200)
   \<and> transactions (snd (withdraw test_account 200)) = [Deposit 1000, Withdraw 200]
   \<and> \<not> fst (withdraw test_account 2000)
   \<and> snd (withdraw test_account 2000) = test_account
   \<and> fst (buy_shares test_account ''AAPL'' 5) = Inr True
   \<and> transactions (snd (buy_shares test_account ''AAPL'' 5)) =
        [Deposit 1000, Buy ''AAPL'' 5 150]
   \<and> fst (buy_shares test_account ''AAPL'' 10) = Inr False
   \<and> snd (buy_shares test_account ''AAPL'' 10) = test_account
   \<and> fst (sell_shares (snd (buy_shares test_account ''AAPL'' 5)) ''AAPL'' 3) = Inr True
   \<and> transactions (snd (sell_shares (snd (buy_shares test_account ''AAPL'' 5)) ''AAPL'' 3)) =
        [Deposit 1000, Buy ''AAPL'' 5 150, Sell ''AAPL'' 3 150]
   \<and> fst (sell_shares (snd (buy_shares test_account ''AAPL'' 2)) ''AAPL'' 3) = Inr False
   \<and> snd (sell_shares (snd (buy_shares test_account ''AAPL'' 2)) ''AAPL'' 3) =
        snd (buy_shares test_account ''AAPL'' 2)"
proof -
  have w1: "fst (withdraw test_account 200)"
    by (simp add: withdraw_def test_account_def new_account_def)
  have w2: "\<not> fst (withdraw test_account 2000)"
    by (simp add: withdraw_def test_account_def new_account_def)
  have limit: "float_of_int 2 = Inr 2" "float_of_int 3 = Inr 3" "float_of_int 5 = Inr 5"
    "float_of_int 10 = Inr 10"
    by (simp_all add: float_of_int_def float_int_limit_def)
  have price: "get_share_price ''AAPL'' = 150"
    by (simp add: get_share_price_def)
  have b5: "buy_shares test_account ''AAPL'' 5 =
      (Inr True, \<lparr>account_id = ''user123'', balance = 250, initial_deposit = 1000,
         holdings = [(''AAPL'', 5)], transactions = [Deposit 1000, Buy ''AAPL'' 5 150]\<rparr>)"
    by (simp add: buy_shares_def test_account_def new_account_def price mul_float_int_def
        limit)
  have b2: "buy_shares test_account ''AAPL'' 2 =
      (Inr True, \<lparr>account_id = ''user123'', balance = 700, initial_deposit = 1000,
         holdings = [(''AAPL'', 2)], transactions = [Deposit 1000, Buy ''AAPL'' 2 150]\<rparr>)"
    by (simp add: buy_shares_def test_account_def new_account_def price mul_float_int_def
        limit)
  have b10: "fst (buy_shares test_account ''AAPL'' 10) = Inr False"
    by (simp add: buy_shares_def test_account_def new_account_def price mul_float_int_def
        limit)
  have s3: "fst (sell_shares (snd (buy_shares test_account ''AAPL'' 5)) ''AAPL'' 3) = Inr True"
    by (simp add: b5 sell_shares_def price mul_float_int_def limit)
  have s3': "fst (sell_shares (snd (buy_shares test_account ''AAPL'' 2)) ''AAPL'' 3) = Inr False"
    by (simp add: b2 sell_shares_def)
  have d: "transactions test_account = [Deposit 1000]"
    by (simp add: test_account_def new_account_def)
  from one_transaction_per_success_none_on_refusal
    [of test_account 500 test_account 200 test_account 2000
        test_account "''AAPL''" 5 test_account "''AAPL''" 10
        "snd (buy_shares test_account ''AAPL'' 5)" "''AAPL''" 3
        "snd (buy_shares test_account ''AAPL'' 2)" "''AAPL''" 3]
    w1 w2 b10 s3 s3' d price
  show ?thesis
    by (simp add: b5)
qed

text \<open>
  Claim C10, as the code has it.  A symbol outside AAPL, TSLA and GOOGL has the price 0.0.
  For such a symbol, a quantity that converts to a float and an account whose balance is
  not negative, \<^verbatim>\<open>buy_shares\<close> returns \<^verbatim>\<open>True\<close>, leaves the balance as it was and adds
  the quantity to the holding of the symbol; the shares add nothing to the portfolio
  value: where \<^verbatim>\<open>calculate_portfolio_value\<close> returned \<open>v\<close> before the purchase and the new
  holding converts to a float, it returns \<open>v\<close> after it.
\<close>

theorem unknown_symbol_is_free_when_balance_not_negative:
  assumes "symbol \<notin> known_symbols"
  shows "get_share_price symbol = 0 \<and>
    (0 \<le> balance a \<and> \<bar>quantity\<bar> < float_int_limit \<longrightarrow>
       fst (buy_shares a symbol quantity) = Inr True
     \<and> balance (snd (buy_shares a symbol quantity)) = balance a
     \<and> map_of (holdings (snd (buy_shares a symbol quantity))) symbol =
         Some (held_quantity a symbol + quantity)
     \<and> (\<bar>held_quantity a symbol + quantity\<bar> < float_int_limit
        \<and> calculate_portfolio_value a = Inr v \<longrightarrow>
          calculate_portfolio_value (snd (buy_shares a symbol quantity)) = Inr v))"
proof -
  have price: "get_share_price symbol = 0"
    using assms by (rule get_share_price_unknown)
  {
    assume bal: "0 \<le> balance a" and q: "\<bar>quantity\<bar> < float_int_limit"
    have cost: "mul_float_int (get_share_price symbol) quantity = Inr 0"
      using price q by (simp add: mul_zero_price)
    have buy: "buy_shares a symbol quantity =
      (Inr True, a\<lparr>balance := balance a - 0,
          holdings := AList.update symbol (held_quantity a symbol + quantity) (holdings a),
          transactions := transactions a @ [Buy symbol quantity 0]\<rparr>)"
      using bal cost price
      by (simp add: buy_shares_def held_quantity_def Let_def split: option.splits)
    have 1: "fst (buy_shares a symbol quantity) = Inr True"
      by (simp add: buy)
    have 2: "balance (snd (buy_shares a symbol quantity)) = balance a"
      by (simp add: buy)
    have 3: "map_of (holdings (snd (buy_shares a symbol quantity))) symbol =
         Some (held_quantity a symbol + quantity)"
      by (simp add: buy update_conv')
    have 4: "calculate_portfolio_value (snd (buy_shares a symbol quantity)) = Inr v"
      if "\<bar>held_quantity a symbol + quantity\<bar> < float_int_limit"
        and "calculate_portfolio_value a = Inr v"
      using that price
      by (simp add: buy calculate_portfolio_value_def portfolio_loop_update_zero)
    note 1 2 3 4
  }
  with price show ?thesis by blast
qed

theorem unknown_symbol_is_free_when_balance_not_negative_witness:
  "''XYZ'' \<notin> known_symbols \<and> get_share_price ''XYZ'' = 0
   \<and> 0 \<le> balance test_account \<and> \<bar>7\<bar> < float_int_limit
   \<and> fst (buy_shares test_account ''XYZ'' 7) = Inr True
   \<and> balance (snd (buy_shares test_account ''XYZ'' 7)) = balance test_account
   \<and> map_of (holdings (snd (buy_shares test_account ''XYZ'' 7))) ''XYZ'' = Some 7
   \<and> \<bar>held_quantity test_account ''XYZ'' + 7\<bar> < float_int_limit
   \<and> calculate_portfolio_value test_account = Inr 1000
   \<and> calculate_portfolio_value (snd (buy_shares test_account ''XYZ'' 7)) = Inr 1000"
proof -
  have s: "''XYZ'' \<notin> known_symbols"
    by (simp add: known_symbols_def)
  have b: "0 \<le> balance test_account"
    by (simp add: test_account_def new_account_def)
  have q: "\<bar>7\<bar> < float_int_limit"
    by (simp add: float_int_limit_def)
  have h: "held_quantity test_account ''XYZ'' = 0"
    by (simp add: held_quantity_def test_account_def new_account_def)
  have q': "\<bar>held_quantity test_account ''XYZ'' + 7\<bar> < float_int_limit"
    by (simp add: h float_int_limit_def)
  have v: "calculate_portfolio_value test_account = Inr 1000"
    by (simp add: calculate_portfolio_value_def test_account_def new_account_def)
  from unknown_symbol_is_free_when_balance_not_negative [OF s, of test_account 7 1000]
    s b q q' v h
  show ?thesis by simp
qed

text \<open>
  Claim C10 as stated fails where the balance is negative, which the constructor and
  \<^verbatim>\<open>deposit\<close> both allow: the cost 0.0 then exceeds the balance and \<^verbatim>\<open>buy_shares\<close>
  returns \<^verbatim>\<open>False\<close>, the account unchanged.  It also fails for a quantity beyond the
  float range, where the product raises.
\<close>

theorem unknown_symbol_refused_on_negative_balance:
  "''XYZ'' \<notin> known_symbols
   \<and> buy_shares (new_account ''u'' (- 1)) ''XYZ'' 1 = (Inr False, new_account ''u'' (- 1))
   \<and> buy_shares (new_account ''u'' 1) ''XYZ'' (2 ^ 1024) =
       (Inl OverflowError, new_account ''u'' 1)"
  by (simp add: known_symbols_def buy_shares_def new_account_def get_share_price_def
      mul_float_int_def float_of_int_def float_int_limit_def)

section \<open>Properties of the research pipeline\<close>

subsection \<open>The order of the progress messages\<close>

text \<open>
  Claim C1.  For every topic and every transcript, when the calls of the planning, the
  writing and the email agent return (the search calls may return or raise),
  \<^verbatim>\<open>run_with_responses\<close> yields the trace URL, the five progress messages and the
  report's markdown, in this order and nothing else, and ends without an exception.
\<close>

theorem run_with_responses_yields_progress_then_report:
  assumes "run_planner rt (planner_input topic qar) = Inr search_plan"
    and "run_writer rt (report_input rt topic (snd (perform_searches rt search_plan))) =
           Inr report"
    and "run_email rt (markdown_report report) = Inr ()"
  shows "yielded (run_with_responses rt topic qar) =
      [get_trace_url (gen_trace_id rt),
       ''Starting research with your responses...'',
       ''Searches planned, starting to search...'',
       ''Searches complete, writing report...'',
       ''Report written, sending email...'',
       ''Email sent, research complete'',
       markdown_report report]
    \<and> raised (run_with_responses rt topic qar) = None"
  using assms
  by (simp add: run_with_responses_def execute_research_pipeline_def plan_searches_def
      write_report_def send_email_def Let_def case_prod_beta)

subsection \<open>What \<^verbatim>\<open>AsyncHelper.run_async\<close> hands back\<close>

lemma run_async_returns: "run_async loop (Inr x) = (Inr x, loop)"
  by (cases loop) (simp_all add: run_async_def asyncio_run_def)

lemma run_async_raises: "fst (run_async loop (Inl e)) = Inl (passed_on loop e)"
  by (cases loop; cases e) (simp_all add: passed_on_def run_async_def asyncio_run_def)

text \<open>
  Without a current loop the coroutine's exception passes unchanged, and so does every
  exception that is not a \<^verbatim>\<open>RuntimeError\<close>.  A \<^verbatim>\<open>RuntimeError\<close> of the coroutine is
  replaced by the one \<^verbatim>\<open>asyncio.run\<close> raises in the handler.
\<close>

lemma passed_on_simps:
  "passed_on no_current_loop e = e"
  "passed_on loop (Exception msg) = Exception msg"
  "passed_on loop OverflowError = OverflowError"
  "passed_on loop EOFError = EOFError"
  "passed_on idle_loop (RuntimeError msg) =
     RuntimeError ''cannot reuse already awaited coroutine''"
  "passed_on running_loop (RuntimeError msg) =
     RuntimeError ''asyncio.run() cannot be called from a running event loop''"
  by (cases loop; cases e; simp add: passed_on_def run_async_def asyncio_run_def)+

lemma execute_research_raised:
  assumes "raised (run_with_responses rt (current_query session) qar) = Some e"
  shows "returned (execute_research loop session rt qar) =
    ''Error running research: '' @ str_exn (passed_on loop e)"
proof -
  obtain result loop' where r: "run_async loop (Inl e :: exn + string) = (result, loop')"
    by (cases "run_async loop (Inl e :: exn + string)")
  then have "result = Inl (passed_on loop e)"
    using run_async_raises [of loop e, where ?'a = string] by simp
  with r assms show ?thesis
    by (simp add: execute_research_def Let_def)
qed

subsection \<open>A failing email agent\<close>

text \<open>
  Claim C2, as the code has it.  \<^verbatim>\<open>_send_email\<close> has no handler.  When planning,
  searching and writing succeed and the email call raises, the exception is not
  swallowed: it ends the generator after \<^verbatim>\<open>Report written, sending email...\<close>, the
  report's markdown is not yielded, and what \<^verbatim>\<open>_execute_research\<close> returns to the caller
  is not the report but a string that begins with \<^verbatim>\<open>Error running research: \<close>, followed
  by the message of the exception \<^verbatim>\<open>AsyncHelper.run_async\<close> passed on.
\<close>

theorem email_failure_ends_run_without_report:
  assumes "run_planner rt (planner_input (current_query session) qar) = Inr search_plan"
    and "run_writer rt
           (report_input rt (current_query session) (snd (perform_searches rt search_plan))) =
           Inr report"
    and "run_email rt (markdown_report report) = Inl e"
  shows "yielded (run_with_responses rt (current_query session) qar) =
      [get_trace_url (gen_trace_id rt),
       ''Starting research with your responses...'',
       ''Searches planned, starting to search...'',
       ''Searches complete, writing report...'',
       ''Report written, sending email...'']
    \<and> raised (run_with_responses rt (current_query session) qar) = Some e
    \<and> returned (execute_research loop session rt qar) =
        ''Error running research: '' @ str_exn (passed_on loop e)
    \<and> prefix ''Error running research: '' (returned (execute_research loop session rt qar))"
proof -
  have run: "yielded (run_with_responses rt (current_query session) qar) =
      [get_trace_url (gen_trace_id rt),
       ''Starting research with your responses...'',
       ''Searches planned, starting to search...'',
       ''Searches complete, writing report...'',
       ''Report written, sending email...'']
    \<and> raised (run_with_responses rt (current_query session) qar) = Some e"
    using assms
    by (simp add: run_with_responses_def execute_research_pipeline_def plan_searches_def
        write_report_def send_email_def Let_def case_prod_beta)
  then have "returned (execute_research loop session rt qar) =
      ''Error running research: '' @ str_exn (passed_on loop e)"
    by (simp add: execute_research_raised)
  with run show ?thesis
    by simp
qed

subsection \<open>Validation of the responses\<close>

lemma length_valid_responses:
  "length (valid_responses responses) = length (filter is_answered responses)"
  by (induction responses rule: valid_responses.induct) (simp_all add: is_answered_def)

lemma validation_rejects:
  assumes "length (filter is_answered responses) \<noteq> length (current_questions session)"
  shows "run_research loop session rt responses =
     \<lparr>returned =
        ''Please provide answers for all '' @ str_nat (length (current_questions session))
          @ '' questions. You provided '' @ str_nat (length (filter is_answered responses))
          @ '' answers.'',
      agent_calls = [], session_left = session, loop_left = loop\<rparr>"
  using assms
  by (simp add: run_research_def validate_responses_def length_valid_responses)

text \<open>
  Claim C3.  When the number of responses that are not \<^verbatim>\<open>None\<close> and not blank differs
  from the number of current questions, \<^verbatim>\<open>run_research\<close> returns the validation
  message, which states the number of questions and the number of answers provided, and
  no agent is called: the planning agent is never invoked.
\<close>

theorem run_research_rejects_answer_count_mismatch:
  assumes "length (filter is_answered responses) \<noteq> length (current_questions session)"
  shows "returned (run_research loop session rt responses) =
      ''Please provide answers for all '' @ str_nat (length (current_questions session))
        @ '' questions. You provided '' @ str_nat (length (filter is_answered responses))
        @ '' answers.''
    \<and> agent_calls (run_research loop session rt responses) = []"
  by (simp add: validation_rejects [OF assms])

subsection \<open>The concurrent searches\<close>

lemma collect_results_eq:
  "collect_results rs acc = acc @ List.map_filter (\<lambda>r. r) rs"
  by (induction rs arbitrary: acc) (auto simp: List.map_filter_simps split: option.splits)

lemma mset_map_filter:
  "mset (List.map_filter f xs) =
     image_mset (the \<circ> f) (filter_mset (\<lambda>x. f x \<noteq> None) (mset xs))"
  by (simp add: List.map_filter_def)

lemma map_filter_map: "List.map_filter f (map g xs) = List.map_filter (f \<circ> g) xs"
  by (simp add: List.map_filter_def filter_map comp_def)

text \<open>Whatever the order of completion, every task is seen once.\<close>

lemma mset_as_completed:
  assumes "mset order = mset [0..<length tasks]"
  shows "mset (as_completed tasks order) = mset tasks"
proof -
  have "set order = {0..<length tasks}"
    using assms by (metis mset_eq_setD set_upt)
  then have "filter (\<lambda>i. i < length tasks) order = order"
    by (auto simp: filter_id_conv)
  then have "mset (as_completed tasks order) = image_mset (\<lambda>i. tasks ! i) (mset order)"
    by (simp add: as_completed_def)
  also have "\<dots> = mset (map (\<lambda>i. tasks ! i) [0..<length tasks])"
    by (simp add: assms)
  also have "\<dots> = mset tasks"
    by (simp add: map_nth)
  finally show ?thesis .
qed

lemma perform_searches_results:
  assumes "mset (completion_order rt) = mset [0..<length (searches search_plan)]"
  shows "mset (snd (perform_searches rt search_plan)) =
    mset (List.map_filter (search_result rt) (searches search_plan))"
proof -
  let ?tasks = "map snd (map (search rt) (searches search_plan))"
  have "mset (as_completed ?tasks (completion_order rt)) = mset ?tasks"
    using assms by (intro mset_as_completed) simp
  then have "mset (List.map_filter (\<lambda>r. r) (as_completed ?tasks (completion_order rt))) =
      mset (List.map_filter (\<lambda>r. r) ?tasks)"
    by (simp add: mset_map_filter)
  moreover have "List.map_filter (\<lambda>r. r) ?tasks =
      List.map_filter (search_result rt) (searches search_plan)"
    by (simp add: map_filter_map comp_def search_result_def [symmetric])
  ultimately show ?thesis
    by (simp add: perform_searches_def collect_results_eq Let_def)
qed

lemma search_result_None_iff: "search_result rt item = None \<longleftrightarrow> search_raises rt item"
  by (simp add: search_result_def search_def search_raises_def split: sum.splits)

lemma perform_searches_calls:
  "fst (perform_searches rt search_plan) =
     map (\<lambda>item. (search_agent, search_input item)) (searches search_plan)"
  by (induction "searches search_plan" arbitrary: search_plan)
     (simp_all add: perform_searches_def Let_def search_def comp_def)

text \<open>
  Claim C4.  Of N planned searches, those whose remote call does not raise are M; in
  whatever order the N tasks complete, \<^verbatim>\<open>_perform_searches\<close> returns exactly M results,
  so never more than N.
\<close>

theorem perform_searches_result_count:
  assumes "mset (completion_order rt) = mset [0..<length (searches search_plan)]"
  shows "length (snd (perform_searches rt search_plan)) =
      length (filter (\<lambda>item. \<not> search_raises rt item) (searches search_plan))
    \<and> length (snd (perform_searches rt search_plan)) \<le> length (searches search_plan)"
proof -
  have "length (snd (perform_searches rt search_plan)) =
      length (List.map_filter (search_result rt) (searches search_plan))"
    using perform_searches_results [OF assms] by (metis size_mset)
  also have "\<dots> =
      length (filter (\<lambda>item. \<not> search_raises rt item) (searches search_plan))"
    by (simp add: List.map_filter_def search_result_None_iff)
  finally show ?thesis by simp
qed

text \<open>
  Claim C5.  A search task whose remote call raises returns \<^verbatim>\<open>None\<close> from its own
  \<^verbatim>\<open>_search\<close>, after that one call.  \<^verbatim>\<open>_perform_searches\<close> calls the search agent once
  per planned item, so the failed search is not retried; its results are the results
  of the sibling tasks, each what its own search returns, so the failed task adds no
  entry and changes none.  The rest of the run is decided by the writer and the email
  agent alone: after a plan with a failing search the pipeline calls the writer with
  the collected results, then the email agent; it ends with an exception only when one
  of these two raises, and then with theirs; otherwise it yields every progress message
  and the report.
\<close>

theorem failed_search_is_dropped_and_isolated:
  assumes order: "mset (completion_order rt) = mset [0..<length (searches search_plan)]"
    and i: "i < length (searches search_plan)"
    and fails: "run_search rt (search_input (searches search_plan ! i)) = Inl e"
  shows "search rt (searches search_plan ! i) =
      ([(search_agent, search_input (searches search_plan ! i))], None)
    \<and> fst (perform_searches rt search_plan) =
        map (\<lambda>item. (search_agent, search_input item)) (searches search_plan)
    \<and> mset (snd (perform_searches rt search_plan)) =
        mset (List.map_filter (search_result rt)
               (take i (searches search_plan) @ drop (Suc i) (searches search_plan)))
    \<and> (run_planner rt (planner_input topic qar) = Inr search_plan \<longrightarrow>
         execute_research_pipeline rt topic qar =
           (let search_results = snd (perform_searches rt search_plan);
                issued =
                  (planner_agent, planner_input topic qar)
                  # map (\<lambda>item. (search_agent, search_input item)) (searches search_plan)
                  @ [(writer_agent, report_input rt topic search_results)]
            in case run_writer rt (report_input rt topic search_results) of
                 Inl writer_error \<Rightarrow>
                   \<lparr>yielded =
                      [''Searches planned, starting to search...'',
                       ''Searches complete, writing report...''],
                    raised = Some writer_error, calls = issued\<rparr>
               | Inr report \<Rightarrow>
                   (case run_email rt (markdown_report report) of
                      Inl email_error \<Rightarrow>
                        \<lparr>yielded =
                           [''Searches planned, starting to search...'',
                            ''Searches complete, writing report...'',
                            ''Report written, sending email...''],
                         raised = Some email_error,
                         calls = issued @ [(email_agent, markdown_report report)]\<rparr>
                    | Inr u \<Rightarrow>
                        \<lparr>yielded =
                           [''Searches planned, starting to search...'',
                            ''Searches complete, writing report...'',
                            ''Report written, sending email...'',
                            ''Email sent, research complete'',
                            markdown_report report],
                         raised = None,
                         calls = issued @ [(email_agent, markdown_report report)]\<rparr>)))"
proof -
  have none: "search_result rt (searches search_plan ! i) = None"
    using fails by (simp add: search_result_def search_def)
  have split: "searches search_plan =
      take i (searches search_plan) @ [searches search_plan ! i]
        @ drop (Suc i) (searches search_plan)"
    using i by (simp add: id_take_nth_drop [symmetric])
  have "List.map_filter (search_result rt) (searches search_plan) =
      List.map_filter (search_result rt) (take i (searches search_plan))
      @ List.map_filter (search_result rt) [searches search_plan ! i]
      @ List.map_filter (search_result rt) (drop (Suc i) (searches search_plan))"
    by (subst split) (simp add: List.map_filter_def)
  then have siblings: "List.map_filter (search_result rt) (searches search_plan) =
      List.map_filter (search_result rt)
        (take i (searches search_plan) @ drop (Suc i) (searches search_plan))"
    using none by (simp add: List.map_filter_def)
  have 1: "search rt (searches search_plan ! i) =
      ([(search_agent, search_input (searches search_plan ! i))], None)"
    using fails by (simp add: search_def)
  have 3: "mset (snd (perform_searches rt search_plan)) =
        mset (List.map_filter (search_result rt)
               (take i (searches search_plan) @ drop (Suc i) (searches search_plan)))"
    using perform_searches_results [OF order] siblings by simp
  have 4: "execute_research_pipeline rt topic qar =
           (let search_results = snd (perform_searches rt search_plan);
                issued =
                  (planner_agent, planner_input topic qar)
                  # map (\<lambda>item. (search_agent, search_input item)) (searches search_plan)
                  @ [(writer_agent, report_input rt topic search_results)]
            in case run_writer rt (report_input rt topic search_results) of
                 Inl writer_error \<Rightarrow>
                   \<lparr>yielded =
                      [''Searches planned, starting to search...'',
                       ''Searches complete, writing report...''],
                    raised = Some writer_error, calls = issued\<rparr>
               | Inr report \<Rightarrow>
                   (case run_email rt (markdown_report report) of
                      Inl email_error \<Rightarrow>
                        \<lparr>yielded =
                           [''Searches planned, starting to search...'',
                            ''Searches complete, writing report...'',
                            ''Report written, sending email...''],
                         raised = Some email_error,
                         calls = issued @ [(email_agent, markdown_report report)]\<rparr>
                    | Inr u \<Rightarrow>
                        \<lparr>yielded =
                           [''Searches planned, starting to search...'',
                            ''Searches complete, writing report...'',
                            ''Report written, sending email...'',
                            ''Email sent, research complete'',
                            markdown_report report],
                         raised = None,
                         calls = issued @ [(email_agent, markdown_report report)]\<rparr>))"
    if "run_planner rt (planner_input topic qar) = Inr search_plan"
    using that
    by (simp add: execute_research_pipeline_def plan_searches_def write_report_def
        send_email_def Let_def case_prod_beta perform_searches_calls split: sum.splits)
  from 1 perform_searches_calls 3 4 show ?thesis by blast
qed

subsection \<open>A failing report writer\<close>

text \<open>
  Claim C6.  When the planning call returns and the report-writing call raises, the
  string \<^verbatim>\<open>_execute_research\<close> returns is \<^verbatim>\<open>Error running research: \<close> followed by the
  message of the exception \<^verbatim>\<open>AsyncHelper.run_async\<close> passed on, and nothing else: the
  writer's own exception, or for a \<^verbatim>\<open>RuntimeError\<close> caught by its handler the one that
  \<^verbatim>\<open>asyncio.run\<close> raises on the spent coroutine.  Either way the string starts with
  \<^verbatim>\<open>Error running research\<close>, and no report was produced: the generator yielded the
  trace URL and three progress messages only, and the email agent was not called.
\<close>

theorem writer_failure_returns_error_string:
  assumes "run_planner rt (planner_input (current_query session) qar) = Inr search_plan"
    and "run_writer rt
           (report_input rt (current_query session) (snd (perform_searches rt search_plan))) =
           Inl e"
  shows "returned (execute_research loop session rt qar) =
      ''Error running research: '' @ str_exn (passed_on loop e)
    \<and> prefix ''Error running research'' (returned (execute_research loop session rt qar))
    \<and> yielded (run_with_responses rt (current_query session) qar) =
        [get_trace_url (gen_trace_id rt),
         ''Starting research with your responses...'',
         ''Searches planned, starting to search...'',
         ''Searches complete, writing report...'']
    \<and> email_agent \<notin> fst ` set (agent_calls (execute_research loop session rt qar))"
proof -
  have run: "run_with_responses rt (current_query session) qar =
      \<lparr>yielded =
         [get_trace_url (gen_trace_id rt),
          ''Starting research with your responses...'',
          ''Searches planned, starting to search...'',
          ''Searches complete, writing report...''],
       raised = Some e,
       calls = (planner_agent, planner_input (current_query session) qar)
         # fst (perform_searches rt search_plan)
         @ [(writer_agent,
             report_input rt (current_query session) (snd (perform_searches rt search_plan)))]\<rparr>"
    using assms
    by (simp add: run_with_responses_def execute_research_pipeline_def plan_searches_def
        write_report_def Let_def case_prod_beta)
  have returned: "returned (execute_research loop session rt qar) =
      ''Error running research: '' @ str_exn (passed_on loop e)"
    by (rule execute_research_raised) (simp add: run)
  have "agent_calls (execute_research loop session rt qar) =
      calls (run_with_responses rt (current_query session) qar)"
    by (simp add: execute_research_def Let_def case_prod_beta)
  moreover have "email_agent \<notin> fst ` set (fst (perform_searches rt search_plan))"
    by (auto simp: perform_searches_calls)
  ultimately have "email_agent \<notin> fst ` set (agent_calls (execute_research loop session rt qar))"
    by (simp add: run)
  with returned run show ?thesis
    by simp
qed

subsection \<open>The answers in a transcript\<close>

lemma str_nat_small: "str_nat 3 = ''3''" "str_nat (Suc 0) = ''1''" "str_nat 2 = ''2''"
  by (simp_all add: str_nat.simps digit_char_def)

text \<open>
  Claim C7 says that on both collection paths every answer written to the transcript
  is trimmed and not empty, and that an answer empty after trimming makes the
  collection fail.  The code does on each path what it leaves out on the other.  The
  interface path rejects a blank response, but writes a padded response with its
  surrounding whitespace, where the interactive path trims the same text.  The
  interactive path trims, but writes an answer that is empty after trimming and
  returns the transcript, where the interface path rejects the same three answers with
  the validation message.
\<close>

theorem transcript_answer_untrimmed_or_empty:
  "format_questions_and_responses laptop_session padded_responses =
     ''1. What is your budget? - Response:   under 600 dollars \<newline>''
     @ ''2. What will you use it for? - Response: programming\<newline>''
     @ ''3. Which screen size? - Response: 14 inch\<newline>''
   \<and> validate_responses laptop_session padded_responses = None
   \<and> strip ''  under 600 dollars '' = ''under 600 dollars''
   \<and> interactive_question_collection laptop_questions typed_lines =
       Inr (''1. What is your budget? - Response: under 600 dollars\<newline>''
            @ ''2. What will you use it for? - Response: \<newline>''
            @ ''3. Which screen size? - Response: 14 inch\<newline>'')
   \<and> validate_responses laptop_session one_blank_response =
       Some ''Please provide answers for all 3 questions. You provided 2 answers.''"
  by (simp add: format_questions_and_responses_def interactive_question_collection_def
      validate_responses_def laptop_session_def laptop_questions_def padded_responses_def
      typed_lines_def one_blank_response_def transcript_line_def str_nat.simps digit_char_def
      strip_def isspace_def whitespace_def)

subsection \<open>What one run leaves for the next\<close>

lemma execute_research_loop_left:
  assumes "raised (run_with_responses rt (current_query session) qar) = Some e"
  shows "loop_left (execute_research loop session rt qar) =
    snd (run_async loop (Inl e :: exn + string))"
  using assms by (simp add: execute_research_def Let_def case_prod_beta)

lemma writer_crash_raised:
  "raised (run_with_responses writer_crash_runtime (current_query laptop_session)
     laptop_transcript) = Some (RuntimeError ''model overloaded'')"
  by (simp add: run_with_responses_def execute_research_pipeline_def plan_searches_def
      write_report_def Let_def case_prod_beta writer_crash_runtime_def laptop_runtime_def)

text \<open>
  Claim C8 says that of two consecutive runs with the same topic, the same transcript
  and the same behaviour of the agents, the first leaves nothing that changes what the
  second returns.  The code leaves the loop state of the thread.  The \<^verbatim>\<open>try\<close> block
  of \<^verbatim>\<open>AsyncHelper.run_async\<close>, whose handler is commented \<^verbatim>\<open>No event loop exists, create
  a new one\<close>, also holds the run of the coroutine.  On a thread with an idle loop, a
  run whose writer raises a \<^verbatim>\<open>RuntimeError\<close> enters that handler with the coroutine
  spent: it returns the message of \<^verbatim>\<open>asyncio.run\<close> and leaves the thread without a
  current loop.  The second run, the session unchanged, starts in the handler with a
  fresh coroutine and returns the writer's message.
\<close>

theorem second_run_differs_after_runtime_error:
  "returned (execute_research idle_loop laptop_session writer_crash_runtime laptop_transcript) =
     ''Error running research: cannot reuse already awaited coroutine''
   \<and> session_left
        (execute_research idle_loop laptop_session writer_crash_runtime laptop_transcript) =
       laptop_session
   \<and> loop_left
        (execute_research idle_loop laptop_session writer_crash_runtime laptop_transcript) =
       no_current_loop
   \<and> returned
        (execute_research
           (loop_left
              (execute_research idle_loop laptop_session writer_crash_runtime
                 laptop_transcript))
           laptop_session writer_crash_runtime laptop_transcript) =
       ''Error running research: model overloaded''"
proof -
  have left: "loop_left
      (execute_research idle_loop laptop_session writer_crash_runtime laptop_transcript) =
      no_current_loop"
    by (simp add: execute_research_loop_left [OF writer_crash_raised] run_async_def
        asyncio_run_def)
  have session: "session_left
      (execute_research idle_loop laptop_session writer_crash_runtime laptop_transcript) =
      laptop_session"
    by (simp add: execute_research_def Let_def case_prod_beta)
  show ?thesis
    by (simp add: left session execute_research_raised [OF writer_crash_raised]
        passed_on_simps)
qed

section \<open>The sample run\<close>

text \<open>The sample transcript is the one the interface formats from the sample responses.\<close>

lemma laptop_transcript_formatted:
  "format_questions_and_responses laptop_session laptop_responses = laptop_transcript"
  by (simp add: format_questions_and_responses_def laptop_session_def laptop_questions_def
      laptop_responses_def laptop_transcript_def transcript_line_def str_nat.simps
      digit_char_def strip_def isspace_def whitespace_def)

lemma laptop_calls:
  "run_planner laptop_runtime x = Inr laptop_plan"
  "run_writer laptop_runtime y = Inr laptop_report"
  "run_email laptop_runtime z = Inr ()"
  "gen_trace_id laptop_runtime = ''trace_1''"
  by (simp_all add: laptop_runtime_def)

theorem run_with_responses_yields_progress_then_report_witness:
  "run_planner laptop_runtime (planner_input ''best budget laptops 2024'' laptop_transcript) =
     Inr laptop_plan
   \<and> run_writer laptop_runtime
       (report_input laptop_runtime ''best budget laptops 2024''
          (snd (perform_searches laptop_runtime laptop_plan))) = Inr laptop_report
   \<and> run_email laptop_runtime (markdown_report laptop_report) = Inr ()
   \<and> yielded (run_with_responses laptop_runtime ''best budget laptops 2024'' laptop_transcript) =
      [''https://platform.openai.com/traces/trace?trace_id=trace_1'',
       ''Starting research with your responses...'',
       ''Searches planned, starting to search...'',
       ''Searches complete, writing report...'',
       ''Report written, sending email...'',
       ''Email sent, research complete'',
       ''# Budget laptops 2024'']
   \<and> raised (run_with_responses laptop_runtime ''best budget laptops 2024'' laptop_transcript) =
       None"
  using run_with_responses_yields_progress_then_report
    [of laptop_runtime "''best budget laptops 2024''" laptop_transcript laptop_plan laptop_report]
  by (simp add: laptop_calls get_trace_url_def laptop_report_def)

lemma email_down_calls:
  "run_planner email_down_runtime x = Inr laptop_plan"
  "run_writer email_down_runtime y = Inr laptop_report"
  "run_email email_down_runtime z = Inl (Exception ''SMTP connection refused'')"
  "gen_trace_id email_down_runtime = ''trace_1''"
  by (simp_all add: email_down_runtime_def laptop_runtime_def)

lemma writer_down_calls:
  "run_planner writer_down_runtime x = Inr laptop_plan"
  "run_writer writer_down_runtime y = Inl (Exception ''model overloaded'')"
  "gen_trace_id writer_down_runtime = ''trace_1''"
  by (simp_all add: writer_down_runtime_def laptop_runtime_def)

lemma writer_crash_calls:
  "run_planner writer_crash_runtime x = Inr laptop_plan"
  "run_writer writer_crash_runtime y = Inl (RuntimeError ''model overloaded'')"
  "gen_trace_id writer_crash_runtime = ''trace_1''"
  by (simp_all add: writer_crash_runtime_def laptop_runtime_def)

lemma laptop_topic: "current_query laptop_session = ''best budget laptops 2024''"
  by (simp add: laptop_session_def)

theorem email_failure_ends_run_without_report_witness:
  "run_planner email_down_runtime (planner_input (current_query laptop_session) laptop_transcript) =
     Inr laptop_plan
   \<and> run_writer email_down_runtime
       (report_input email_down_runtime (current_query laptop_session)
          (snd (perform_searches email_down_runtime laptop_plan))) = Inr laptop_report
   \<and> run_email email_down_runtime (markdown_report laptop_report) =
       Inl (Exception ''SMTP connection refused'')
   \<and> yielded (run_with_responses email_down_runtime (current_query laptop_session) laptop_transcript) =
      [''https://platform.openai.com/traces/trace?trace_id=trace_1'',
       ''Starting research with your responses...'',
       ''Searches planned, starting to search...'',
       ''Searches complete, writing report...'',
       ''Report written, sending email...'']
   \<and> raised (run_with_responses email_down_runtime (current_query laptop_session) laptop_transcript) =
       Some (Exception ''SMTP connection refused'')
   \<and> returned (execute_research idle_loop laptop_session email_down_runtime laptop_transcript) =
       ''Error running research: SMTP connection refused''
   \<and> prefix ''Error running research: ''
       (returned (execute_research idle_loop laptop_session email_down_runtime laptop_transcript))"
  using email_failure_ends_run_without_report
    [of email_down_runtime laptop_session laptop_transcript laptop_plan laptop_report
        "Exception ''SMTP connection refused''" idle_loop]
  by (simp add: email_down_calls get_trace_url_def passed_on_simps)

text \<open>
  Claim C2 as stated fails on the sample run with the email agent down, here on a
  thread without a current loop, as a worker thread of the interface is: the generator
  ends with the exception, its last element is a progress message and not the report,
  and the caller receives the error string.
\<close>

theorem email_failure_is_not_swallowed:
  "raised (run_with_responses email_down_runtime ''best budget laptops 2024'' laptop_transcript) =
     Some (Exception ''SMTP connection refused'')
   \<and> last (yielded (run_with_responses email_down_runtime ''best budget laptops 2024''
        laptop_transcript)) = ''Report written, sending email...''
   \<and> markdown_report laptop_report = ''# Budget laptops 2024''
   \<and> returned (execute_research no_current_loop laptop_session email_down_runtime
        laptop_transcript) = ''Error running research: SMTP connection refused''"
proof -
  have run: "raised (run_with_responses email_down_runtime (current_query laptop_session)
        laptop_transcript) = Some (Exception ''SMTP connection refused'')
      \<and> last (yielded (run_with_responses email_down_runtime (current_query laptop_session)
        laptop_transcript)) = ''Report written, sending email...''"
    by (simp add: run_with_responses_def execute_research_pipeline_def plan_searches_def
        write_report_def send_email_def Let_def case_prod_beta email_down_calls)
  then have "returned (execute_research no_current_loop laptop_session email_down_runtime
        laptop_transcript) = ''Error running research: SMTP connection refused''"
    by (simp add: execute_research_raised passed_on_simps)
  with run show ?thesis
    by (simp add: laptop_topic laptop_report_def)
qed

text \<open>
  The writer raising a \<^verbatim>\<open>RuntimeError\<close> on a thread with an idle loop, where the handler
  of \<^verbatim>\<open>run_async\<close> is entered with the spent coroutine; and the writer raising another
  exception, which passes unchanged.
\<close>

theorem writer_failure_returns_error_string_witness:
  "run_planner writer_crash_runtime (planner_input (current_query laptop_session) laptop_transcript) =
     Inr laptop_plan
   \<and> run_writer writer_crash_runtime
       (report_input writer_crash_runtime (current_query laptop_session)
          (snd (perform_searches writer_crash_runtime laptop_plan))) =
       Inl (RuntimeError ''model overloaded'')
   \<and> returned (execute_research idle_loop laptop_session writer_crash_runtime laptop_transcript) =
       ''Error running research: cannot reuse already awaited coroutine''
   \<and> prefix ''Error running research''
       (returned (execute_research idle_loop laptop_session writer_crash_runtime laptop_transcript))
   \<and> yielded (run_with_responses writer_crash_runtime (current_query laptop_session) laptop_transcript) =
      [''https://platform.openai.com/traces/trace?trace_id=trace_1'',
       ''Starting research with your responses...'',
       ''Searches planned, starting to search...'',
       ''Searches complete, writing report...'']
   \<and> email_agent \<notin> fst ` set (agent_calls
        (execute_research idle_loop laptop_session writer_crash_runtime laptop_transcript))
   \<and> run_writer writer_down_runtime
       (report_input writer_down_runtime (current_query laptop_session)
          (snd (perform_searches writer_down_runtime laptop_plan))) =
       Inl (Exception ''model overloaded'')
   \<and> returned (execute_research idle_loop laptop_session writer_down_runtime laptop_transcript) =
       ''Error running research: model overloaded''"
  using writer_failure_returns_error_string
    [of writer_crash_runtime laptop_session laptop_transcript laptop_plan
        "RuntimeError ''model overloaded''" idle_loop]
    writer_failure_returns_error_string
    [of writer_down_runtime laptop_session laptop_transcript laptop_plan
        "Exception ''model overloaded''" idle_loop]
  by (simp add: writer_crash_calls writer_down_calls get_trace_url_def passed_on_simps)

lemma three_questions: "length (current_questions laptop_session) = 3"
  by (simp add: laptop_session_def laptop_questions_def)

theorem run_research_rejects_answer_count_mismatch_witness:
  "length (filter is_answered [Some ''under 600 dollars'', Some ''   '', None]) \<noteq>
     length (current_questions laptop_session)
   \<and> returned (run_research no_current_loop laptop_session laptop_runtime
        [Some ''under 600 dollars'', Some ''   '', None]) =
       ''Please provide answers for all 3 questions. You provided 1 answers.''
   \<and> agent_calls (run_research no_current_loop laptop_session laptop_runtime
        [Some ''under 600 dollars'', Some ''   '', None]) = []"
proof -
  have n: "length (filter is_answered [Some ''under 600 dollars'', Some ''   '', None]) = 1"
    by (simp add: is_answered_def strip_def isspace_def whitespace_def)
  have h: "length (filter is_answered [Some ''under 600 dollars'', Some ''   '', None]) \<noteq>
     length (current_questions laptop_session)"
    unfolding n three_questions by simp
  from run_research_rejects_answer_count_mismatch [OF h, of no_current_loop laptop_runtime] h
  show ?thesis
    unfolding n three_questions by (simp add: str_nat_small)
qed

lemma timeout_order:
  "mset (completion_order search_timeout_runtime) = mset [0..<length (searches laptop_plan)]"
  by (simp add: search_timeout_runtime_def laptop_runtime_def laptop_plan_def upt_rec
      add_mset_commute)

lemma timeout_searches:
  "run_search search_timeout_runtime (search_input (searches laptop_plan ! 0)) =
     Inr ''Summary of laptops under 600''"
  "run_search search_timeout_runtime (search_input (searches laptop_plan ! 1)) =
     Inl (Exception ''timeout'')"
  "run_search search_timeout_runtime (search_input (searches laptop_plan ! 2)) =
     Inr ''Summary of 14 inch laptops''"
  by (simp_all add: search_timeout_runtime_def laptop_runtime_def laptop_plan_def
      search_input_def)

lemma timeout_results:
  "perform_searches search_timeout_runtime laptop_plan =
     ([(search_agent, ''Search term: laptops under 600\<newline>Reason for searching: prices''),
       (search_agent,
        ''Search term: laptops for programming\<newline>Reason for searching: reviews''),
       (search_agent, ''Search term: 14 inch laptops\<newline>Reason for searching: sizes'')],
      [''Summary of 14 inch laptops'', ''Summary of laptops under 600''])"
  by (simp add: perform_searches_def search_def as_completed_def search_timeout_runtime_def
      laptop_runtime_def laptop_plan_def search_input_def)

lemma timeout_calls:
  "run_planner search_timeout_runtime x = Inr laptop_plan"
  "run_writer search_timeout_runtime y = Inr laptop_report"
  "run_email search_timeout_runtime z = Inr ()"
  by (simp_all add: search_timeout_runtime_def laptop_runtime_def)

theorem perform_searches_result_count_witness:
  "mset (completion_order search_timeout_runtime) = mset [0..<length (searches laptop_plan)]
   \<and> length (searches laptop_plan) = 3
   \<and> length (filter (\<lambda>item. \<not> search_raises search_timeout_runtime item)
        (searches laptop_plan)) = 2
   \<and> length (snd (perform_searches search_timeout_runtime laptop_plan)) = 2"
proof -
  have m: "length (filter (\<lambda>item. \<not> search_raises search_timeout_runtime item)
        (searches laptop_plan)) = 2"
    by (simp add: search_raises_def search_timeout_runtime_def laptop_runtime_def
        laptop_plan_def search_input_def)
  from perform_searches_result_count [OF timeout_order] timeout_order m
  show ?thesis
    by (simp add: laptop_plan_def)
qed

theorem failed_search_is_dropped_and_isolated_witness:
  "mset (completion_order search_timeout_runtime) = mset [0..<length (searches laptop_plan)]
   \<and> 1 < length (searches laptop_plan)
   \<and> run_search search_timeout_runtime (search_input (searches laptop_plan ! 1)) =
       Inl (Exception ''timeout'')
   \<and> run_planner search_timeout_runtime
        (planner_input ''best budget laptops 2024'' laptop_transcript) = Inr laptop_plan
   \<and> search search_timeout_runtime (searches laptop_plan ! 1) =
       ([(search_agent,
          ''Search term: laptops for programming\<newline>Reason for searching: reviews'')], None)
   \<and> fst (perform_searches search_timeout_runtime laptop_plan) =
       [(search_agent, ''Search term: laptops under 600\<newline>Reason for searching: prices''),
        (search_agent,
         ''Search term: laptops for programming\<newline>Reason for searching: reviews''),
        (search_agent, ''Search term: 14 inch laptops\<newline>Reason for searching: sizes'')]
   \<and> mset (snd (perform_searches search_timeout_runtime laptop_plan)) =
       {#''Summary of laptops under 600'', ''Summary of 14 inch laptops''#}
   \<and> yielded (execute_research_pipeline search_timeout_runtime
        ''best budget laptops 2024'' laptop_transcript) =
       [''Searches planned, starting to search...'',
        ''Searches complete, writing report...'',
        ''Report written, sending email...'',
        ''Email sent, research complete'',
        ''# Budget laptops 2024'']
   \<and> raised (execute_research_pipeline search_timeout_runtime
        ''best budget laptops 2024'' laptop_transcript) = None
   \<and> (writer_agent,
        report_input search_timeout_runtime ''best budget laptops 2024''
          [''Summary of 14 inch laptops'', ''Summary of laptops under 600''])
       \<in> set (calls (execute_research_pipeline search_timeout_runtime
             ''best budget laptops 2024'' laptop_transcript))
   \<and> (email_agent, ''# Budget laptops 2024'')
       \<in> set (calls (execute_research_pipeline search_timeout_runtime
             ''best budget laptops 2024'' laptop_transcript))"
proof -
  have i: "1 < length (searches laptop_plan)"
    by (simp add: laptop_plan_def)
  have item: "search_input (searches laptop_plan ! Suc 0) =
      ''Search term: laptops for programming\<newline>Reason for searching: reviews''"
    by (simp add: laptop_plan_def search_input_def)
  note dropped = failed_search_is_dropped_and_isolated
    [OF timeout_order i timeout_searches(2),
      of "''best budget laptops 2024''" laptop_transcript]
  from dropped timeout_calls(1) have rest:
    "execute_research_pipeline search_timeout_runtime ''best budget laptops 2024''
       laptop_transcript =
     \<lparr>yielded =
        [''Searches planned, starting to search...'',
         ''Searches complete, writing report...'',
         ''Report written, sending email...'',
         ''Email sent, research complete'',
         ''# Budget laptops 2024''],
      raised = None,
      calls =
        ((planner_agent, planner_input ''best budget laptops 2024'' laptop_transcript)
         # map (\<lambda>item. (search_agent, search_input item)) (searches laptop_plan)
         @ [(writer_agent,
             report_input search_timeout_runtime ''best budget laptops 2024''
               [''Summary of 14 inch laptops'', ''Summary of laptops under 600''])])
        @ [(email_agent, ''# Budget laptops 2024'')]\<rparr>"
    by (simp add: timeout_calls timeout_results laptop_report_def Let_def)
  from dropped timeout_order i timeout_searches(2) timeout_calls(1)
  show ?thesis
    by (simp add: rest timeout_results timeout_calls laptop_report_def Let_def item
        add_mset_commute)
qed

end
